theory Spec2Isabelle
  imports Complex_Main
begin

section \<open>The notebook\<close>

text \<open>
  The repository is one Python 2 notebook, \<^verbatim>\<open>approx/approx.ipynb\<close>. Its own code is
  the two poem texts, the tokenizer \<^verbatim>\<open>clean_words\<close>, the helper \<^verbatim>\<open>mh_digest\<close> and the
  top-level loops that feed five sketch objects. The sketches themselves
  (\<^verbatim>\<open>hyperloglog\<close>, \<^verbatim>\<open>pybloom\<close>, \<^verbatim>\<open>datasketch\<close>, \<^verbatim>\<open>yacms\<close>, \<^verbatim>\<open>tdigest\<close>) are imported
  packages; the notebook holds none of their code, so they appear here only as the
  receivers of calls.

  Python 2 \<^verbatim>\<open>str\<close> is a byte string, which is what \<^typ>\<open>string\<close> is: a list of
  8-bit characters.
\<close>

subsection \<open>The two poems (cells 4 and 6)\<close>

definition jabber_text :: string where
  \<open>jabber_text =
     ''\<newline>'' @
     ''`Twas brillig, and the slithy toves\<newline>'' @
     ''  Did gyre and gimble in the wabe:\<newline>'' @
     ''All mimsy were the borogoves,\<newline>'' @
     ''  And the mome raths outgrabe.\<newline>'' @
     ''\<newline>'' @
     ''"Beware the Jabberwock, my son!\<newline>'' @
     ''  The jaws that bite, the claws that catch!\<newline>'' @
     ''Beware the Jubjub bird, and shun\<newline>'' @
     ''  The frumious Bandersnatch!"\<newline>'' @
     ''He took his vorpal sword in hand:\<newline>'' @
     ''  Long time the manxome foe he sought --\<newline>'' @
     ''So rested he by the Tumtum tree,\<newline>'' @
     ''  And stood awhile in thought.\<newline>'' @
     ''And, as in uffish thought he stood,\<newline>'' @
     ''  The Jabberwock, with eyes of flame,\<newline>'' @
     ''Came whiffling through the tulgey wood,\<newline>'' @
     ''  And burbled as it came!\<newline>'' @
     ''One, two! One, two! And through and through\<newline>'' @
     ''  The vorpal blade went snicker-snack!\<newline>'' @
     ''He left it dead, and with its head\<newline>'' @
     ''  He went galumphing back.\<newline>'' @
     ''"And, has thou slain the Jabberwock?\<newline>'' @
     ''  Come to my arms, my beamish boy!\<newline>'' @
     ''O frabjous day! Callooh! Callay!'\<newline>'' @
     ''  He chortled in his joy.\<newline>'' @
     ''\<newline>'' @
     ''`Twas brillig, and the slithy toves\<newline>'' @
     ''  Did gyre and gimble in the wabe;\<newline>'' @
     ''All mimsy were the borogoves,\<newline>'' @
     ''  And the mome raths outgrabe.\<newline>''\<close>

definition parker_text :: string where
  \<open>parker_text =
     ''\<newline>'' @
     ''My answers are inadequate\<newline>'' @
     ''To those demanding day and date\<newline>'' @
     ''And ever set a tiny shock\<newline>'' @
     ''Through strangers asking what's o'clock;\<newline>'' @
     ''Whose days are spent in whittling rhyme-\<newline>'' @
     ''What's time to her, or she to Time?\<newline>''\<close>

subsection \<open>Tokenizer (cell 8)\<close>

text \<open>
  \<^verbatim>\<open>
  def clean_words (text):
    return filter(lambda x: len(x) > 0, re.sub("[^A-Za-z]", " ", text).split(" "))
  \<close>
\<close>

text \<open>The character class \<^verbatim>\<open>[A-Za-z]\<close>: the bytes 65..90 and 97..122.\<close>

definition is_letter :: "char \<Rightarrow> bool" where
  "is_letter c = (let n = (of_char c :: nat) in (65 \<le> n \<and> n \<le> 90) \<or> (97 \<le> n \<and> n \<le> 122))"

text \<open>
  \<^verbatim>\<open>re.sub("[^A-Za-z]", " ", text)\<close>: the pattern matches one character at a time, and
  a negated class matches the line feed too, so every character outside the class
  becomes one space.
\<close>

definition re_sub :: "string \<Rightarrow> string" where
  "re_sub text = map (\<lambda>c. if is_letter c then c else CHR '' '') text"

text \<open>
  \<^verbatim>\<open>s.split(sep)\<close> for a one-character separator: it cuts at every occurrence, so two
  adjacent separators, a leading one or a trailing one give an empty fragment, and the
  empty string gives \<^verbatim>\<open>['']\<close>.
\<close>

fun py_split :: "char \<Rightarrow> string \<Rightarrow> string list" where
  "py_split sep [] = [[]]"
| "py_split sep (c # cs) =
     (if c = sep then [] # py_split sep cs
      else (case py_split sep cs of [] \<Rightarrow> [[c]] | w # ws \<Rightarrow> (c # w) # ws))"

text \<open>In Python 2 \<^verbatim>\<open>filter\<close> on a list returns a list, in the order of the input.\<close>

definition clean_words :: "string \<Rightarrow> string list" where
  "clean_words text = filter (\<lambda>x. length x > 0) (py_split (CHR '' '') (re_sub text))"

text \<open>\<^verbatim>\<open>sep.join(parts)\<close>, the inverse of \<^verbatim>\<open>split\<close>; used to state what \<open>py_split\<close> keeps.\<close>

fun py_join :: "char \<Rightarrow> string list \<Rightarrow> string" where
  "py_join sep [] = []"
| "py_join sep [w] = w"
| "py_join sep (w # v # ws) = w @ sep # py_join sep (v # ws)"

subsection \<open>Word lists (cells 9 and 10)\<close>

text \<open>\<^verbatim>\<open>str.lower()\<close> on a byte string (C locale): the bytes 65..90 move up by 32.\<close>

definition lower :: "string \<Rightarrow> string" where
  "lower s = map (\<lambda>c. let n = (of_char c :: nat) in
                        if 65 \<le> n \<and> n \<le> 90 then char_of (n + 32) else c) s"

definition jabber_words :: "string list" where
  "jabber_words = clean_words (lower jabber_text)"

definition parker_words :: "string list" where
  "parker_words = clean_words (lower parker_text)"

subsection \<open>What the cells hand to the sketches (cells 14, 17, 20, 23 and 30)\<close>

text \<open>
  The sketch objects are opaque here, so a cell is modelled by the sequence of items it
  passes to a sketch's insertion method, in call order:
  \<^verbatim>\<open>hll.add(word)\<close>, \<^verbatim>\<open>bf.add(word)\<close>, \<^verbatim>\<open>m.digest(sha1(d.encode('utf8')))\<close>,
  \<^verbatim>\<open>cms.update(word, 1)\<close> and \<^verbatim>\<open>td.add(random.random(), 1)\<close>.
  An item is a Python value of one of three kinds: a \<^verbatim>\<open>str\<close>, a \<^verbatim>\<open>hashlib\<close> SHA-1 object
  (identified by the bytes it was built from) or a \<^verbatim>\<open>float\<close> (a real number here; only
  its kind matters below).
\<close>

datatype item = Word string | Sha1 string | Sample real

datatype sketch = HyperLogLog | BloomFilter | MinHash | CountMinSketch | TDigest

datatype error = UnicodeDecodeError

text \<open>
  \<^verbatim>\<open>d.encode('utf8')\<close> on a Python 2 \<^verbatim>\<open>str\<close> first decodes the bytes as ASCII, which
  raises on a byte above 127; on ASCII bytes the result is the same bytes.
\<close>

definition encode_utf8 :: "string \<Rightarrow> error + string" where
  "encode_utf8 d =
     (if list_all (\<lambda>c. (of_char c :: nat) < 128) d then Inr d else Inl UnicodeDecodeError)"

text \<open>
  \<^verbatim>\<open>
  def mh_digest (data):
    m = MinHash(num_perm=512)
    for d in data:
      m.digest(sha1(d.encode('utf8')))
    return m
  \<close>
  The result stands for \<^verbatim>\<open>m\<close>: the items digested into it.
\<close>

fun mh_digest :: "string list \<Rightarrow> error + item list" where
  "mh_digest [] = Inr []"
| "mh_digest (d # ds) =
     (case encode_utf8 d of
        Inl e \<Rightarrow> Inl e
      | Inr b \<Rightarrow> (case mh_digest ds of Inl e \<Rightarrow> Inl e | Inr m \<Rightarrow> Inr (Sha1 b # m)))"

definition hll_cell :: "(sketch \<times> item) list" where
  "hll_cell = map (\<lambda>word. (HyperLogLog, Word word)) jabber_words"

definition bf_cell :: "(sketch \<times> item) list" where
  "bf_cell = map (\<lambda>word. (BloomFilter, Word word)) parker_words"

text \<open>
  \<^verbatim>\<open>m1 = mh_digest(set(jabber_words)); m2 = mh_digest(set(parker_words))\<close>.
  A Python set iterates its distinct elements in an order the source does not fix;
  \<open>remdups\<close> picks one such order, and nothing below depends on which.
\<close>

definition mh_cell :: "error + (sketch \<times> item) list" where
  "mh_cell =
     (case mh_digest (remdups jabber_words) of
        Inl e \<Rightarrow> Inl e
      | Inr m1 \<Rightarrow>
          (case mh_digest (remdups parker_words) of
             Inl e \<Rightarrow> Inl e
           | Inr m2 \<Rightarrow> Inr (map (Pair MinHash) (m1 @ m2))))"

definition cms_cell :: "(sketch \<times> item) list" where
  "cms_cell = map (\<lambda>word. (CountMinSketch, Word word)) jabber_words"

text \<open>
  \<^verbatim>\<open>for x in xrange(0, 1000): td.add(random.random(), 1)\<close>.
  The generator is a parameter: \<open>random x\<close> is the draw of iteration \<open>x\<close>.
\<close>

definition td_cell :: "(nat \<Rightarrow> real) \<Rightarrow> (sketch \<times> item) list" where
  "td_cell random = map (\<lambda>x. (TDigest, Sample (random x))) [0..<1000]"

text \<open>The cells in notebook order; an exception in a cell stops the run.\<close>

definition notebook_feed :: "(nat \<Rightarrow> real) \<Rightarrow> error + (sketch \<times> item) list" where
  "notebook_feed random =
     (case mh_cell of
        Inl e \<Rightarrow> Inl e
      | Inr mh \<Rightarrow> Inr (hll_cell @ bf_cell @ mh @ cms_cell @ td_cell random))"

subsection \<open>Predicates of the properties\<close>

text \<open>A non-empty alphabetic word.\<close>

definition is_word :: "string \<Rightarrow> bool" where
  "is_word w = (w \<noteq> [] \<and> list_all is_letter w)"

fun item_is_word :: "item \<Rightarrow> bool" where
  "item_is_word (Word w) = is_word w"
| "item_is_word (Sha1 b) = False"
| "item_is_word (Sample x) = False"

text \<open>Every item of a run is a word; a run that raised fed nothing that is recorded.\<close>

definition feeds_only_words :: "error + (sketch \<times> item) list \<Rightarrow> bool" where
  "feeds_only_words r =
     (case r of Inl e \<Rightarrow> True | Inr feed \<Rightarrow> list_all (\<lambda>(s, it). item_is_word it) feed)"

text \<open>What each sketch is fed: words, SHA-1 objects of words, or floats.\<close>

fun fed_as_written :: "sketch \<times> item \<Rightarrow> bool" where
  "fed_as_written (TDigest, it) = (case it of Sample x \<Rightarrow> True | _ \<Rightarrow> False)"
| "fed_as_written (MinHash, it) = (case it of Sha1 b \<Rightarrow> is_word b | _ \<Rightarrow> False)"
| "fed_as_written (s, it) = item_is_word it"

section \<open>Properties of the tokenizer\<close>

lemma re_sub_letter_or_space: "c \<in> set (re_sub t) \<Longrightarrow> is_letter c \<or> c = CHR '' ''"
  by (auto simp: re_sub_def)

lemma py_split_not_Nil: "py_split sep s \<noteq> []"
  by (induction s) (auto split: list.splits)

lemma py_split_fragment:
  "w \<in> set (py_split sep s) \<Longrightarrow> sep \<notin> set w \<and> set w \<subseteq> set s"
proof (induction s arbitrary: w)
  case Nil
  then show ?case by simp
next
  case (Cons c cs)
  show ?case
  proof (cases "c = sep")
    case True
    with Cons show ?thesis by auto
  next
    case False
    obtain v vs where vs: "py_split sep cs = v # vs"
      using py_split_not_Nil [of sep cs] by (cases "py_split sep cs") auto
    from Cons.prems False vs have "w = c # v \<or> w \<in> set vs" by simp
    then show ?thesis
    proof
      assume "w = c # v"
      moreover have "sep \<notin> set v \<and> set v \<subseteq> set cs" using Cons.IH [of v] vs by simp
      ultimately show ?thesis using False by auto
    next
      assume "w \<in> set vs"
      then have "sep \<notin> set w \<and> set w \<subseteq> set cs" using Cons.IH [of w] vs by simp
      then show ?thesis by auto
    qed
  qed
qed

lemma space_not_letter: "\<not> is_letter (CHR '' '')"
  by (simp add: is_letter_def)

lemma clean_words_token:
  assumes "w \<in> set (clean_words t)"
  shows "is_word w"
proof -
  from assms have w: "w \<in> set (py_split (CHR '' '') (re_sub t))" and ne: "w \<noteq> []"
    by (auto simp: clean_words_def)
  from py_split_fragment [OF w]
  have nosp: "CHR '' '' \<notin> set w" and sub: "set w \<subseteq> set (re_sub t)" by auto
  have "is_letter c" if "c \<in> set w" for c
    using re_sub_letter_or_space [of c t] sub nosp that by auto
  with ne show ?thesis by (simp add: is_word_def list_all_iff)
qed

text \<open>
  Splitting loses nothing but the separators: joining the fragments gives the string
  back, and the fragments together hold exactly the other characters, in order.
\<close>

lemma py_join_split: "py_join sep (py_split sep s) = s"
proof (induction s)
  case Nil
  show ?case by simp
next
  case (Cons c cs)
  obtain v vs where vs: "py_split sep cs = v # vs"
    using py_split_not_Nil [of sep cs] by (cases "py_split sep cs") auto
  with Cons show ?case by (cases vs) auto
qed

lemma concat_py_split: "concat (py_split sep s) = filter (\<lambda>c. c \<noteq> sep) s"
proof (induction s)
  case Nil
  show ?case by simp
next
  case (Cons c cs)
  obtain v vs where vs: "py_split sep cs = v # vs"
    using py_split_not_Nil [of sep cs] by (cases "py_split sep cs") auto
  with Cons show ?case by auto
qed

lemma concat_filter_nonempty: "concat (filter (\<lambda>x. x \<noteq> []) xs) = concat xs"
  by (induction xs) auto

lemma filter_re_sub: "filter (\<lambda>c. c \<noteq> CHR '' '') (re_sub t) = filter is_letter t"
  by (induction t) (auto simp: re_sub_def space_not_letter)

text \<open>The tokens, read one after the other, are the letters of the input: none is lost.\<close>

lemma concat_clean_words: "concat (clean_words t) = filter is_letter t"
  by (simp add: clean_words_def concat_filter_nonempty concat_py_split filter_re_sub)

lemma clean_words_all: "list_all is_word (clean_words t)"
  by (simp add: list_all_iff clean_words_token)

subsection \<open>The word lists the notebook printed\<close>

text \<open>
  The notebook file records the output of cells 9 and 10. The model computes the same
  two lists from the two poems.
\<close>

lemma parker_words_recorded: "parker_words =
    [''my'', ''answers'', ''are'', ''inadequate'', ''to'', ''those'', ''demanding'',
     ''day'', ''and'', ''date'', ''and'', ''ever'', ''set'', ''a'', ''tiny'', ''shock'',
     ''through'', ''strangers'', ''asking'', ''what'', ''s'', ''o'', ''clock'', ''whose'',
     ''days'', ''are'', ''spent'', ''in'', ''whittling'', ''rhyme'', ''what'', ''s'',
     ''time'', ''to'', ''her'', ''or'', ''she'', ''to'', ''time'']"
  unfolding parker_words_def by code_simp

lemma jabber_words_recorded: "jabber_words =
    [''twas'', ''brillig'', ''and'', ''the'', ''slithy'', ''toves'', ''did'', ''gyre'',
     ''and'', ''gimble'', ''in'', ''the'', ''wabe'', ''all'', ''mimsy'', ''were'', ''the'',
     ''borogoves'', ''and'', ''the'', ''mome'', ''raths'', ''outgrabe'', ''beware'',
     ''the'', ''jabberwock'', ''my'', ''son'', ''the'', ''jaws'', ''that'', ''bite'',
     ''the'', ''claws'', ''that'', ''catch'', ''beware'', ''the'', ''jubjub'', ''bird'',
     ''and'', ''shun'', ''the'', ''frumious'', ''bandersnatch'', ''he'', ''took'', ''his'',
     ''vorpal'', ''sword'', ''in'', ''hand'', ''long'', ''time'', ''the'', ''manxome'',
     ''foe'', ''he'', ''sought'', ''so'', ''rested'', ''he'', ''by'', ''the'', ''tumtum'',
     ''tree'', ''and'', ''stood'', ''awhile'', ''in'', ''thought'', ''and'', ''as'',
     ''in'', ''uffish'', ''thought'', ''he'', ''stood'', ''the'', ''jabberwock'', ''with'',
     ''eyes'', ''of'', ''flame'', ''came'', ''whiffling'', ''through'', ''the'',
     ''tulgey'', ''wood'', ''and'', ''burbled'', ''as'', ''it'', ''came'', ''one'',
     ''two'', ''one'', ''two'', ''and'', ''through'', ''and'', ''through'', ''the'',
     ''vorpal'', ''blade'', ''went'', ''snicker'', ''snack'', ''he'', ''left'', ''it'',
     ''dead'', ''and'', ''with'', ''its'', ''head'', ''he'', ''went'', ''galumphing'',
     ''back'', ''and'', ''has'', ''thou'', ''slain'', ''the'', ''jabberwock'', ''come'',
     ''to'', ''my'', ''arms'', ''my'', ''beamish'', ''boy'', ''o'', ''frabjous'', ''day'',
     ''callooh'', ''callay'', ''he'', ''chortled'', ''in'', ''his'', ''joy'', ''twas'',
     ''brillig'', ''and'', ''the'', ''slithy'', ''toves'', ''did'', ''gyre'', ''and'',
     ''gimble'', ''in'', ''the'', ''wabe'', ''all'', ''mimsy'', ''were'', ''the'',
     ''borogoves'', ''and'', ''the'', ''mome'', ''raths'', ''outgrabe'']"
  unfolding jabber_words_def by code_simp

section \<open>What reaches the sketches\<close>

lemma jabber_word: "w \<in> set jabber_words \<Longrightarrow> is_word w"
  by (simp add: jabber_words_def clean_words_token)

lemma parker_word: "w \<in> set parker_words \<Longrightarrow> is_word w"
  by (simp add: parker_words_def clean_words_token)

text \<open>A word is ASCII, so encoding it never raises and \<open>mh_digest\<close> returns.\<close>

lemma letter_ascii: "is_letter c \<Longrightarrow> (of_char c :: nat) < 128"
  by (auto simp: is_letter_def Let_def)

lemma encode_utf8_word: "is_word w \<Longrightarrow> encode_utf8 w = Inr w"
  by (auto simp: encode_utf8_def is_word_def list_all_iff letter_ascii)

lemma mh_digest_words: "list_all is_word ds \<Longrightarrow> mh_digest ds = Inr (map Sha1 ds)"
  by (induction ds) (auto simp: encode_utf8_word)

lemma remdups_words: "list_all is_word (remdups (clean_words t))"
  using clean_words_all [of t] by (simp add: list_all_iff)

lemma mh_cell_eq:
  "mh_cell = Inr (map (Pair MinHash)
     (map Sha1 (remdups jabber_words) @ map Sha1 (remdups parker_words)))"
  by (simp add: mh_cell_def jabber_words_def parker_words_def mh_digest_words remdups_words)

lemma notebook_feed_eq:
  "notebook_feed random = Inr (hll_cell @ bf_cell @
     map (Pair MinHash) (map Sha1 (remdups jabber_words) @ map Sha1 (remdups parker_words)) @
     cms_cell @ td_cell random)"
  by (simp add: notebook_feed_def mh_cell_eq)

text \<open>
  C10, as amended. For every input string, every token in the list returned by
  \<open>clean_words\<close> is a non-empty string consisting only of ASCII letters. Consequently
  the notebook run completes, every item it feeds to the HyperLogLog, the Bloom filter
  and the Count-Min sketch is a non-empty alphabetic word, and every item it feeds to
  MinHash is the SHA-1 object of such a word. The t-Digest is fed floats, whatever the
  random generator draws.
\<close>

theorem clean_words_alphabetic_feed:
  "(\<forall>w \<in> set (clean_words t). w \<noteq> [] \<and> (\<forall>c \<in> set w. is_letter c)) \<and>
   (\<exists>feed. notebook_feed random = Inr feed \<and>
      (\<forall>(s, it) \<in> set feed.
         (s \<in> {HyperLogLog, BloomFilter, CountMinSketch} \<longrightarrow> (\<exists>w. it = Word w \<and> is_word w)) \<and>
         (s = MinHash \<longrightarrow> (\<exists>w. it = Sha1 w \<and> is_word w)) \<and>
         (s = TDigest \<longrightarrow> (\<exists>x. it = Sample x))))"
proof (intro conjI)
  show "\<forall>w \<in> set (clean_words t). w \<noteq> [] \<and> (\<forall>c \<in> set w. is_letter c)"
    using clean_words_token [of _ t] by (auto simp: is_word_def list_all_iff)
next
  let ?feed = "hll_cell @ bf_cell @
     map (Pair MinHash) (map Sha1 (remdups jabber_words) @ map Sha1 (remdups parker_words)) @
     cms_cell @ td_cell random"
  have "\<forall>(s, it) \<in> set ?feed.
         (s \<in> {HyperLogLog, BloomFilter, CountMinSketch} \<longrightarrow> (\<exists>w. it = Word w \<and> is_word w)) \<and>
         (s = MinHash \<longrightarrow> (\<exists>w. it = Sha1 w \<and> is_word w)) \<and>
         (s = TDigest \<longrightarrow> (\<exists>x. it = Sample x))"
    by (auto simp: hll_cell_def bf_cell_def cms_cell_def td_cell_def jabber_word parker_word)
  then show "\<exists>feed. notebook_feed random = Inr feed \<and>
      (\<forall>(s, it) \<in> set feed.
         (s \<in> {HyperLogLog, BloomFilter, CountMinSketch} \<longrightarrow> (\<exists>w. it = Word w \<and> is_word w)) \<and>
         (s = MinHash \<longrightarrow> (\<exists>w. it = Sha1 w \<and> is_word w)) \<and>
         (s = TDigest \<longrightarrow> (\<exists>x. it = Sample x)))"
    using notebook_feed_eq [of random] by blast
qed

text \<open>
  The theorem at a concrete input: a line of the first poem, and the run in which every
  draw is one half. The Bloom filter receives the word \<open>my\<close>, MinHash its SHA-1 object
  and the t-Digest the float.
\<close>

theorem clean_words_alphabetic_feed_witness:
  "clean_words ''Twas brillig, and'' = [''Twas'', ''brillig'', ''and''] \<and>
   list_all is_word (clean_words ''Twas brillig, and'') \<and>
   (\<exists>feed. notebook_feed (\<lambda>x. 1 / 2) = Inr feed \<and>
      (BloomFilter, Word ''my'') \<in> set feed \<and>
      (MinHash, Sha1 ''my'') \<in> set feed \<and>
      (TDigest, Sample (1 / 2)) \<in> set feed \<and>
      list_all fed_as_written feed)"
proof -
  note main = clean_words_alphabetic_feed [of "''Twas brillig, and''" "\<lambda>x. 1 / 2"]
  have tokens: "clean_words ''Twas brillig, and'' = [''Twas'', ''brillig'', ''and'']"
    by code_simp
  have words: "list_all is_word (clean_words ''Twas brillig, and'')"
    using main by (simp add: list_all_iff is_word_def)
  from main obtain feed where
    run: "notebook_feed (\<lambda>x. 1 / 2) = Inr feed" and
    fed: "\<forall>(s, it) \<in> set feed.
         (s \<in> {HyperLogLog, BloomFilter, CountMinSketch} \<longrightarrow> (\<exists>w. it = Word w \<and> is_word w)) \<and>
         (s = MinHash \<longrightarrow> (\<exists>w. it = Sha1 w \<and> is_word w)) \<and>
         (s = TDigest \<longrightarrow> (\<exists>x. it = Sample x))"
    by blast
  have my: "''my'' \<in> set parker_words"
    by (simp add: parker_words_recorded)
  from run have feed: "feed = hll_cell @ bf_cell @
     map (Pair MinHash) (map Sha1 (remdups jabber_words) @ map Sha1 (remdups parker_words)) @
     cms_cell @ td_cell (\<lambda>x. 1 / 2)"
    by (simp add: notebook_feed_eq)
  have bf: "(BloomFilter, Word ''my'') \<in> set feed"
    using my by (simp add: feed bf_cell_def)
  have mh: "(MinHash, Sha1 ''my'') \<in> set feed"
    using my by (simp add: feed image_iff)
  have td: "(TDigest, Sample (1 / 2)) \<in> set feed"
    by (auto simp: feed td_cell_def intro!: image_eqI [where x = 0])
  have "fed_as_written p" if "p \<in> set feed" for p
  proof -
    obtain s it where p: "p = (s, it)" by (cases p)
    with fed that show ?thesis by (cases s) auto
  qed
  then have "list_all fed_as_written feed"
    by (simp add: list_all_iff)
  with tokens words run bf mh td show ?thesis by blast
qed

text \<open>
  C10 as written ends: every item the notebook feeds to the sketches is a non-empty
  alphabetic word. Cell 30 feeds the t-Digest \<^verbatim>\<open>random.random()\<close>, a float, so the run
  does not feed words only. (Cell 20 likewise hands MinHash a SHA-1 object, not the word
  it was built from.)
\<close>

theorem notebook_feed_not_only_words: "\<not> feeds_only_words (notebook_feed (\<lambda>x. 1 / 2))"
proof -
  have "(TDigest, Sample (1 / 2)) \<in> set (td_cell (\<lambda>x. 1 / 2))"
    by (auto simp: td_cell_def intro!: image_eqI [where x = 0])
  moreover have "\<not> (case (TDigest, Sample (1 / 2)) of (s, it) \<Rightarrow> item_is_word it)"
    by simp
  ultimately have "\<not> list_all (\<lambda>(s, it). item_is_word it) (td_cell (\<lambda>x. 1 / 2))"
    unfolding list_all_iff by blast
  then show ?thesis
    by (simp add: feeds_only_words_def notebook_feed_eq)
qed

end
